theory Spec2Isabelle
  imports Main
begin

section \<open>The Slack export handler\<close>

text \<open>
  The export endpoint crawls a Slack workspace (channels, users, channel history, image
  attachments) and answers with one snapshot. The model follows the handler function by
  function. Objects of the remote API are records whose optional properties are
  \<open>option\<close> values (\<open>None\<close> is JavaScript's \<open>undefined\<close>); files and messages are
  extensible records, so that the properties the handler never reads travel in the
  record's extension and an object spread is a record update. A user record has the
  four properties the handler reads. The objects the handler uses as dictionaries are
  plain objects: own properties in insertion order, and a prototype. Everything the handler
  asks of the outside (Slack, the file download, the clock) is a field of an environment
  record; each answer may depend on the log of all effects so far, so two calls with the
  same arguments may be answered differently. Console output is not modelled.
\<close>

subsection \<open>Truthiness and the \<open>||\<close> operator\<close>

text \<open>A string-valued property is truthy when it is defined and not the empty string.\<close>

fun truthy :: "string option \<Rightarrow> bool" where
  "truthy None = False"
| "truthy (Some s) = (s \<noteq> [])"

text \<open>\<open>a || b\<close> on optional strings: \<open>a\<close> when it is truthy, otherwise \<open>b\<close> whatever it is.\<close>

definition js_or :: "string option \<Rightarrow> string option \<Rightarrow> string option" where
  "js_or a b = (if truthy a then a else b)"

text \<open>
  \<open>n || 0\<close> on an optional number, \<open>s || ''\<close> on an optional string and \<open>xs || []\<close>
  on an optional array (an array is truthy, also when it is empty).
\<close>

definition or_zero :: "int option \<Rightarrow> int" where
  "or_zero n = (case n of None \<Rightarrow> 0 | Some k \<Rightarrow> if k = 0 then 0 else k)"

definition or_empty :: "string option \<Rightarrow> string" where
  "or_empty s = (if truthy s then (case s of Some t \<Rightarrow> t | None \<Rightarrow> []) else [])"

definition or_nil :: "'a list option \<Rightarrow> 'a list" where
  "or_nil xs = (case xs of None \<Rightarrow> [] | Some l \<Rightarrow> l)"

subsection \<open>Objects used as dictionaries\<close>

text \<open>
  The handler keeps its three dictionaries in plain objects created by \<open>{}\<close>. Such an
  object has its own properties, in insertion order, and a prototype: \<open>Object.prototype\<close>
  at first (\<open>proto = None\<close>), or the value that an assignment to \<open>__proto__\<close> has put in
  its place. \<open>Object.values\<close> and the JSON document of the response see the own
  properties only. JavaScript lists integer-like keys first, which changes the order of
  the own properties and neither their number nor their values.
\<close>

record 'v js_object =
  own :: "(string \<times> 'v) list"
  proto :: "'v option"

definition empty_object :: "'v js_object" where
  "empty_object = \<lparr>own = [], proto = None\<rparr>"

text \<open>
  Writing an own property: an existing one keeps its place and takes the new value, a new
  one is appended.
\<close>

fun define_own :: "string \<Rightarrow> 'v \<Rightarrow> (string \<times> 'v) list \<Rightarrow> (string \<times> 'v) list" where
  "define_own k v [] = [(k, v)]"
| "define_own k v (p # ps) = (if fst p = k then (k, v) # ps else p # define_own k v ps)"

text \<open>
  \<open>obj[k] = v\<close>, where \<open>v\<close> is an object (every value the handler stores is an array or
  an object). The name \<open>__proto__\<close> is an accessor inherited from \<open>Object.prototype\<close>:
  unless the object has an own property of that name, the assignment replaces the
  prototype and creates no property. Every other name is written as an own property.
\<close>

definition assign :: "string \<Rightarrow> 'v \<Rightarrow> 'v js_object \<Rightarrow> 'v js_object" where
  "assign k v obj =
     (if k = ''__proto__'' \<and> k \<notin> fst ` set (own obj) then obj\<lparr>proto := Some v\<rparr>
      else obj\<lparr>own := define_own k v (own obj)\<rparr>)"

subsection \<open>Records of the remote API\<close>

record slack_file =
  url_private :: "string option"
  file_size :: "int option"
  mimetype :: "string option"
  file_data :: "string option"
  file_data_mimetype :: "string option"

record display_profile =
  display_name :: "string option"
  real_name :: "string option"
  image_72 :: "string option"

record slack_user =
  user_id :: string
  user_name :: "string option"
  user_real_name :: "string option"
  profile :: "display_profile option"

record valued =
  val :: "string option"

record channel =
  ch_id :: string
  ch_name :: string
  ch_created :: "int option"
  ch_creator :: "string option"
  ch_is_archived :: "bool option"
  ch_is_general :: "bool option"
  ch_num_members :: "int option"
  ch_purpose :: "valued option"
  ch_topic :: "valued option"

text \<open>The value stored under \<open>channelData[channel.name]\<close>.\<close>

record channel_data =
  chan_id :: string
  name :: string
  created :: "int option"
  creator :: "string option"
  is_archived :: "bool option"
  is_general :: "bool option"
  members :: int
  purpose :: string
  topic :: string

text \<open>
  The \<open>user_profile\<close> property of a message is absent (\<open>Undefined\<close>), \<open>null\<close>, or an
  object.
\<close>

datatype 'a nullable = Undefined | Null | Obj 'a

record 'f message =
  user :: "string option"
  ts :: string
  msg_text :: string
  subtype :: "string option"
  reactions :: "(string \<times> nat) list option"
  thread_ts :: "string option"
  files :: "'f list option"
  user_profile :: "display_profile nullable"

subsection \<open>The environment\<close>

datatype event =
    AuthTest
  | ConversationsList
  | UsersList
  | ConversationsHistory string
  | Fetch string
  | Sleep nat

text \<open>An error thrown by the Slack client: its \<open>code\<close> and its \<open>message\<close>.\<close>

record slack_error =
  code :: "string option"
  message :: string

text \<open>
  \<open>fetch\<close> rejects (network error, a timeout of the runtime) or resolves to a response
  with its \<open>ok\<close> flag; reading the body of the response may reject as well.
\<close>

datatype body_result = BodyThrows | Body string

datatype fetch_result = FetchThrows | Response bool body_result

text \<open>
  The environment: the two variables of \<open>process.env\<close>, the SHA-256 digest in hexadecimal
  and the base64 encoder of the runtime, the clock, and the five remote operations. The
  first argument of each operation is the log of the effects before the call.
\<close>

record 'msg env =
  SLACK_BOT_TOKEN :: "string option"
  ADMIN_PASSKEY_HASH :: "string option"
  secureHash :: "string \<Rightarrow> string"
  toBase64 :: "string \<Rightarrow> string"
  now :: "event list \<Rightarrow> int"
  auth_test :: "event list \<Rightarrow> slack_error + unit"
  conversations_list :: "event list \<Rightarrow> slack_error + channel list option"
  users_list :: "event list \<Rightarrow> slack_error + slack_user list option"
  conversations_history :: "event list \<Rightarrow> string \<Rightarrow> int \<Rightarrow> slack_error + 'msg list option"
  fetch :: "event list \<Rightarrow> string \<Rightarrow> string option \<Rightarrow> fetch_result"

subsection \<open>Embedding files\<close>

definition MAX_FILE_SIZE_BYTES :: int where
  "MAX_FILE_SIZE_BYTES = 5 * 1024 * 1024"

definition EMBEDDABLE_MIMETYPES :: "string list" where
  "EMBEDDABLE_MIMETYPES =
     [''image/jpeg'', ''image/png'', ''image/gif'', ''image/webp'', ''image/svg+xml'']"

text \<open>
  \<open>downloadFileAsBase64\<close>: every failure, thrown or not, is the result \<open>null\<close>; the
  request is logged.
\<close>

definition downloadFileAsBase64 ::
  "'msg env \<Rightarrow> string \<Rightarrow> string option \<Rightarrow> event list \<Rightarrow> string option \<times> event list" where
  "downloadFileAsBase64 en url token tr =
     ((case fetch en tr url token of
         FetchThrows \<Rightarrow> None
       | Response ok body \<Rightarrow>
           if \<not> ok then None
           else (case body of BodyThrows \<Rightarrow> None | Body bytes \<Rightarrow> Some (toBase64 en bytes))),
      tr @ [Fetch url])"

text \<open>
  \<open>Promise.all(xs.map(async f))\<close>: the callbacks start in the order of the list, and
  the results come back in that order.
\<close>

fun promise_all_map ::
  "('a \<Rightarrow> event list \<Rightarrow> 'b \<times> event list) \<Rightarrow> 'a list \<Rightarrow> event list \<Rightarrow> 'b list \<times> event list" where
  "promise_all_map f [] tr = ([], tr)"
| "promise_all_map f (x # xs) tr =
     (case f x tr of (y, tr1) \<Rightarrow>
        (case promise_all_map f xs tr1 of (ys, tr2) \<Rightarrow> (y # ys, tr2)))"

text \<open>
  The callback of \<open>processMessageFiles\<close> for one file. Where \<open>shouldEmbed\<close> holds,
  \<open>url_private\<close> is a non-empty string, the one passed to the download.
\<close>

definition shouldEmbed :: "'x slack_file_scheme \<Rightarrow> bool" where
  "shouldEmbed f \<longleftrightarrow>
     truthy (url_private f) \<and>
     (case file_size f of None \<Rightarrow> False | Some n \<Rightarrow> n \<le> MAX_FILE_SIZE_BYTES) \<and>
     (case mimetype f of None \<Rightarrow> False | Some t \<Rightarrow> t \<in> set EMBEDDABLE_MIMETYPES)"

definition embed_file ::
  "'msg env \<Rightarrow> string option \<Rightarrow> 'x slack_file_scheme \<Rightarrow> event list \<Rightarrow> 'x slack_file_scheme \<times> event list" where
  "embed_file en token f tr =
     (if shouldEmbed f then
        (case downloadFileAsBase64 en (or_empty (url_private f)) token tr of
           (base64Data, tr') \<Rightarrow>
             if truthy base64Data
             then (f\<lparr>file_data := base64Data, file_data_mimetype := mimetype f\<rparr>, tr')
             else (f, tr'))
      else (f, tr))"

definition processMessageFiles ::
  "'msg env \<Rightarrow> 'x slack_file_scheme list option \<Rightarrow> string option \<Rightarrow> event list
     \<Rightarrow> 'x slack_file_scheme list option \<times> event list" where
  "processMessageFiles en fs token tr =
     (case fs of
        None \<Rightarrow> (fs, tr)
      | Some l \<Rightarrow>
          if length l = 0 then (fs, tr)
          else (case promise_all_map (embed_file en token) l tr of
                  (processedFiles, tr') \<Rightarrow> (Some processedFiles, tr')))"

subsection \<open>Enriching messages\<close>

text \<open>
  What \<open>usersById[message.user]\<close> can evaluate to: \<open>undefined\<close>, a user record, and, read
  through the prototype chain, a function of \<open>Object.prototype\<close> (with its \<open>name\<close>),
  \<open>Object.prototype\<close> itself, or a string or the profile of a user record that has
  become the prototype of the index.
\<close>

datatype js_value =
    JUndefined
  | JString string
  | JUser slack_user
  | JProfile display_profile
  | JFunction string
  | JObjectPrototype

fun truthy_value :: "js_value \<Rightarrow> bool" where
  "truthy_value JUndefined = False"
| "truthy_value (JString s) = (s \<noteq> [])"
| "truthy_value (JUser u) = True"
| "truthy_value (JProfile p) = True"
| "truthy_value (JFunction n) = True"
| "truthy_value JObjectPrototype = True"

text \<open>
  The property name of \<open>usersById[message.user]\<close>: the id, or the string \<open>undefined\<close>
  for a message without \<open>user\<close>.
\<close>

definition author_key :: "string option \<Rightarrow> string" where
  "author_key u = (case u of None \<Rightarrow> ''undefined'' | Some uid \<Rightarrow> uid)"

text \<open>
  The data properties of \<open>Object.prototype\<close>, all of them functions; \<open>constructor\<close> is
  the function \<open>Object\<close>, each of the others is named as its property.
\<close>

definition object_prototype_functions :: "string list" where
  "object_prototype_functions =
     [''constructor'', ''__defineGetter__'', ''__defineSetter__'', ''hasOwnProperty'',
      ''__lookupGetter__'', ''__lookupSetter__'', ''isPrototypeOf'', ''propertyIsEnumerable'',
      ''toString'', ''valueOf'', ''toLocaleString'']"

definition object_prototype_get :: "string \<Rightarrow> js_value" where
  "object_prototype_get k =
     (if k = ''constructor'' then JFunction ''Object''
      else if k \<in> set object_prototype_functions then JFunction k
      else JUndefined)"


definition user_own_property :: "slack_user \<Rightarrow> string \<Rightarrow> js_value option" where
  "user_own_property u k =
     (if k = ''id'' then Some (JString (user_id u))
      else if k = ''name'' then map_option JString (user_name u)
      else if k = ''real_name'' then map_option JString (user_real_name u)
      else if k = ''profile'' then map_option JProfile (profile u)
      else None)"

text \<open>
  \<open>usersById[message.user]\<close>: an own property of the index first; then the properties of
  the prototype chain. The accessor \<open>__proto__\<close> answers with the prototype of the index.
\<close>

definition lookup_user :: "slack_user js_object \<Rightarrow> string option \<Rightarrow> js_value" where
  "lookup_user usersById u =
     (let k = author_key u in
      case map_of (own usersById) k of
        Some found \<Rightarrow> JUser found
      | None \<Rightarrow>
          (case proto usersById of
             None \<Rightarrow> if k = ''__proto__'' then JObjectPrototype else object_prototype_get k
           | Some p \<Rightarrow>
               (case user_own_property p k of
                  Some v \<Rightarrow> v
                | None \<Rightarrow> if k = ''__proto__'' then JUser p else object_prototype_get k)))"

text \<open>
  The three properties that the handler reads of the value found: \<open>profile\<close>,
  \<open>real_name\<close> and \<open>name\<close>. A string has none of them, a function has a \<open>name\<close>, a
  profile has a \<open>real_name\<close>.
\<close>

fun value_profile :: "js_value \<Rightarrow> display_profile option" where
  "value_profile (JUser u) = profile u"
| "value_profile v = None"

fun value_real_name :: "js_value \<Rightarrow> string option" where
  "value_real_name (JUser u) = user_real_name u"
| "value_real_name (JProfile p) = real_name p"
| "value_real_name v = None"

fun value_name :: "js_value \<Rightarrow> string option" where
  "value_name (JUser u) = user_name u"
| "value_name (JFunction n) = Some n"
| "value_name v = None"

text \<open>The object literal built from the value found.\<close>

definition profile_snapshot :: "js_value \<Rightarrow> display_profile" where
  "profile_snapshot x =
     \<lparr>display_name =
        js_or (case value_profile x of None \<Rightarrow> None | Some p \<Rightarrow> display_name p)
          (js_or (value_real_name x) (value_name x)),
      real_name = js_or (value_real_name x) (value_name x),
      image_72 = (case value_profile x of None \<Rightarrow> None | Some p \<Rightarrow> image_72 p)\<rparr>"

text \<open>The callback that transforms one message of a channel's history.\<close>

definition transformMessage ::
  "('x slack_file_scheme, 'y) message_scheme env \<Rightarrow> slack_user js_object
     \<Rightarrow> ('x slack_file_scheme, 'y) message_scheme \<Rightarrow> event list
     \<Rightarrow> ('x slack_file_scheme, 'y) message_scheme \<times> event list" where
  "transformMessage en usersById m tr =
     (case (case files m of
              Some l \<Rightarrow> processMessageFiles en (files m) (SLACK_BOT_TOKEN en) tr
            | None \<Rightarrow> (None, tr)) of
        (processedFiles, tr') \<Rightarrow>
          (m\<lparr>files := processedFiles,
             user_profile :=
               (if truthy_value (lookup_user usersById (user m))
                then Obj (profile_snapshot (lookup_user usersById (user m)))
                else Null)\<rparr>,
           tr'))"

subsection \<open>Harvesting the channels\<close>

text \<open>The object literal stored in \<open>channelData\<close>, the same on both paths.\<close>

definition channel_entry :: "channel \<Rightarrow> channel_data" where
  "channel_entry ch =
     \<lparr>chan_id = ch_id ch,
      name = ch_name ch,
      created = ch_created ch,
      creator = ch_creator ch,
      is_archived = ch_is_archived ch,
      is_general = ch_is_general ch,
      members = or_zero (ch_num_members ch),
      purpose = or_empty (case ch_purpose ch of None \<Rightarrow> None | Some p \<Rightarrow> val p),
      topic = or_empty (case ch_topic ch of None \<Rightarrow> None | Some p \<Rightarrow> val p)\<rparr>"

record 'msg harvest_state =
  channelMessages :: "'msg list js_object"
  channelData :: "channel_data js_object"
  trace :: "event list"

text \<open>
  The cutoff of the history request: thirty days before now, in seconds, rounded down.
\<close>

definition thirtyDaysAgo :: "int \<Rightarrow> int" where
  "thirtyDaysAgo t = (t - 30 * 24 * 60 * 60 * 1000) div 1000"

text \<open>
  The body of the loop over the channels: the \<open>try\<close> block, and the \<open>catch\<close> block when
  the history request throws. On records of the shapes above no other statement of the
  \<open>try\<close> block throws: a failed download is the value \<open>null\<close>, and reading a property
  of the value found for the author gives \<open>undefined\<close> at worst.
\<close>

definition harvestChannel ::
  "('x slack_file_scheme, 'y) message_scheme env \<Rightarrow> slack_user js_object \<Rightarrow> channel
     \<Rightarrow> ('x slack_file_scheme, 'y) message_scheme harvest_state
     \<Rightarrow> ('x slack_file_scheme, 'y) message_scheme harvest_state" where
  "harvestChannel en usersById ch st =
     (case conversations_history en (trace st) (ch_id ch) (thirtyDaysAgo (now en (trace st))) of
        Inr historyResponse \<Rightarrow>
          (let messages = or_nil historyResponse
           in case promise_all_map (transformMessage en usersById) messages
                     (trace st @ [ConversationsHistory (ch_id ch)]) of
                (transformedMessages, tr') \<Rightarrow>
                  \<lparr>channelMessages = assign (ch_name ch) transformedMessages (channelMessages st),
                   channelData = assign (ch_name ch) (channel_entry ch) (channelData st),
                   trace = tr' @ [Sleep 100]\<rparr>)
      | Inl channelError \<Rightarrow>
          \<lparr>channelMessages = assign (ch_name ch) [] (channelMessages st),
           channelData = assign (ch_name ch) (channel_entry ch) (channelData st),
           trace = trace st @ [ConversationsHistory (ch_id ch)]\<rparr>)"

fun harvestChannels ::
  "('x slack_file_scheme, 'y) message_scheme env \<Rightarrow> slack_user js_object \<Rightarrow> channel list
     \<Rightarrow> ('x slack_file_scheme, 'y) message_scheme harvest_state
     \<Rightarrow> ('x slack_file_scheme, 'y) message_scheme harvest_state" where
  "harvestChannels en usersById [] st = st"
| "harvestChannels en usersById (ch # chs) st =
     harvestChannels en usersById chs (harvestChannel en usersById ch st)"

subsection \<open>The export\<close>

text \<open>
  The snapshot as the response carries it: of each of the three dictionaries its own
  properties.
\<close>

record 'msg export_data =
  channels :: "(string \<times> channel_data) list"
  messages :: "(string \<times> 'msg list) list"
  users :: "(string \<times> slack_user) list"
  exportDate :: int
  totalChannels :: nat
  totalUsers :: nat
  totalMessages :: nat

text \<open>\<open>users.forEach(user => { usersById[user.id] = user })\<close>.\<close>

definition index_users :: "slack_user list \<Rightarrow> slack_user js_object" where
  "index_users us = foldl (\<lambda>usersById u. assign (user_id u) u usersById) empty_object us"

text \<open>
  The handler from the connection test to the snapshot. An error thrown by the
  connection test or by one of the two listings leaves the function. \<open>exportDate\<close> is
  the instant of the clock, which the handler prints in ISO format.
\<close>

definition export ::
  "('x slack_file_scheme, 'y) message_scheme env
     \<Rightarrow> slack_error + ('x slack_file_scheme, 'y) message_scheme export_data" where
  "export en =
     (case auth_test en [] of
        Inl e \<Rightarrow> Inl e
      | Inr authTest \<Rightarrow>
     (case conversations_list en [AuthTest] of
        Inl e \<Rightarrow> Inl e
      | Inr channelsResponse \<Rightarrow>
     (case users_list en [AuthTest, ConversationsList] of
        Inl e \<Rightarrow> Inl e
      | Inr usersResponse \<Rightarrow>
          (let chs = or_nil channelsResponse;
               us = or_nil usersResponse;
               usersById = index_users us;
               st = harvestChannels en usersById chs
                      \<lparr>channelMessages = empty_object, channelData = empty_object,
                       trace = [AuthTest, ConversationsList, UsersList]\<rparr>
           in Inr \<lparr>channels = own (channelData st),
                   messages = own (channelMessages st),
                   users = own usersById,
                   exportDate = now en (trace st),
                   totalChannels = length chs,
                   totalUsers = length us,
                   totalMessages =
                     foldl (\<lambda>sum msgs. sum + length msgs) 0
                       (map snd (own (channelMessages st)))\<rparr>))))"

subsection \<open>The request handler\<close>

text \<open>The request: its verb and the \<open>passkey\<close> property of its parsed body.\<close>

record request =
  http_method :: string
  passkey :: "string option"

text \<open>
  The response: its status with the error text and the optional details, or with the
  snapshot (the summary sentence that goes with the snapshot is left out).
\<close>

datatype 'msg response =
    Failure nat string "string option"
  | Success nat "'msg export_data"

definition handler ::
  "('x slack_file_scheme, 'y) message_scheme env \<Rightarrow> request
     \<Rightarrow> ('x slack_file_scheme, 'y) message_scheme response" where
  "handler en req =
     (if http_method req \<noteq> ''POST'' then Failure 405 ''Method not allowed'' None
      else if \<not> truthy (passkey req) then Failure 401 ''Authentication required'' None
      else if Some (secureHash en (or_empty (passkey req))) \<noteq> ADMIN_PASSKEY_HASH en
      then Failure 401 ''Admin access required'' None
      else if \<not> truthy (SLACK_BOT_TOKEN en)
      then Failure 500
             ''Slack bot token not configured. Please set SLACK_BOT_TOKEN environment variable.''
             None
      else (case export en of
                  Inr exportData \<Rightarrow> Success 200 exportData
                | Inl error \<Rightarrow>
                    if code error = Some ''not_authed''
                    then Failure 401 ''Slack authentication failed. Please check your bot token.'' None
                    else if code error = Some ''missing_scope''
                    then Failure 403
                           ''Insufficient Slack permissions. Bot needs channels:read, channels:history, users:read scopes.''
                           None
                    else if code error = Some ''rate_limited''
                    then Failure 429 ''Rate limited by Slack API. Please try again later.'' None
                    else Failure 500 ''Failed to export Slack data'' (Some (message error))))"

section \<open>A workspace to run the handler on\<close>

text \<open>
  Two channels: \<open>general\<close>, whose history holds a message of alice with a 2 MiB PNG and
  a bot message without author, and \<open>secret-ops\<close>, whose history request is refused.
  Three user records, two of them with the id \<open>U2\<close>.
\<close>

definition png :: slack_file where
  "png = \<lparr>url_private = Some ''https://files.slack.com/T1/chart.png'',
           file_size = Some (2 * 1024 * 1024), mimetype = Some ''image/png'',
           file_data = None, file_data_mimetype = None\<rparr>"

definition alice :: slack_user where
  "alice = \<lparr>user_id = ''U1'', user_name = Some ''alice'', user_real_name = None,
             profile = None\<rparr>"

definition bob_old :: slack_user where
  "bob_old = \<lparr>user_id = ''U2'', user_name = Some ''bob'', user_real_name = Some ''Bob'',
               profile = Some \<lparr>display_name = Some [], real_name = Some ''Bob'',
                               image_72 = None\<rparr>\<rparr>"

definition bob_new :: slack_user where
  "bob_new = \<lparr>user_id = ''U2'', user_name = Some ''bob'', user_real_name = Some ''Bob'',
               profile = Some \<lparr>display_name = Some ''bobby'', real_name = Some ''Bob'',
                               image_72 = Some ''https://avatars.slack.com/bob_72.png''\<rparr>\<rparr>"

definition with_chart :: "slack_file message" where
  "with_chart = \<lparr>user = Some ''U1'', ts = ''1700000000.000100'', msg_text = ''see chart'',
                  subtype = None, reactions = Some [(''thumbsup'', 2)], thread_ts = None,
                  files = Some [png], user_profile = Undefined\<rparr>"

definition bot_note :: "slack_file message" where
  "bot_note = \<lparr>user = None, ts = ''1700000001.000200'', msg_text = ''deployed'',
                subtype = Some ''bot_message'', reactions = None, thread_ts = None,
                files = None, user_profile = Undefined\<rparr>"

definition general :: channel where
  "general = \<lparr>ch_id = ''C1'', ch_name = ''general'', ch_created = Some 1600000000,
               ch_creator = Some ''U1'', ch_is_archived = Some False,
               ch_is_general = Some True, ch_num_members = Some 4,
               ch_purpose = Some \<lparr>val = Some ''Company-wide''\<rparr>, ch_topic = None\<rparr>"

definition secret_ops :: channel where
  "secret_ops = \<lparr>ch_id = ''C2'', ch_name = ''secret-ops'', ch_created = Some 1650000000,
                  ch_creator = Some ''U2'', ch_is_archived = Some True,
                  ch_is_general = Some False, ch_num_members = None,
                  ch_purpose = Some \<lparr>val = Some ''Operations''\<rparr>,
                  ch_topic = Some \<lparr>val = None\<rparr>\<rparr>"

definition scenario_env :: "slack_file message env" where
  "scenario_env =
     \<lparr>SLACK_BOT_TOKEN = Some ''xoxb-1'',
      ADMIN_PASSKEY_HASH = Some ''5e88'',
      secureHash = (\<lambda>s. ''5e88''),
      toBase64 = (\<lambda>bytes. ''UE5H''),
      now = (\<lambda>tr. 1700000000000),
      auth_test = (\<lambda>tr. Inr ()),
      conversations_list = (\<lambda>tr. Inr (Some [general, secret_ops])),
      users_list = (\<lambda>tr. Inr (Some [alice, bob_old, bob_new])),
      conversations_history =
        (\<lambda>tr c oldest.
           if c = ''C1'' then Inr (Some [with_chart, bot_note])
           else Inl \<lparr>code = Some ''missing_scope'', message = ''missing_scope''\<rparr>),
      fetch = (\<lambda>tr url token. Response True (Body ''PNG''))\<rparr>"

definition scenario_snapshot :: "slack_file message export_data" where
  "scenario_snapshot =
     \<lparr>channels = [(''general'', channel_entry general), (''secret-ops'', channel_entry secret_ops)],
      messages =
        [(''general'',
          [with_chart\<lparr>files := Some [png\<lparr>file_data := Some ''UE5H'',
                                            file_data_mimetype := Some ''image/png''\<rparr>],
                       user_profile := Obj \<lparr>display_name = Some ''alice'',
                                             real_name = Some ''alice'', image_72 = None\<rparr>\<rparr>,
           bot_note\<lparr>user_profile := Null\<rparr>]),
         (''secret-ops'', [])],
      users = [(''U1'', alice), (''U2'', bob_new)],
      exportDate = 1700000000000,
      totalChannels = 2,
      totalUsers = 3,
      totalMessages = 2\<rparr>"

text \<open>
  The same workspace when the listing returns a second channel that is named \<open>general\<close>
  too, and when every download is refused.
\<close>

definition general_reused :: channel where
  "general_reused = \<lparr>ch_id = ''C3'', ch_name = ''general'', ch_created = Some 1690000000,
                      ch_creator = Some ''U2'', ch_is_archived = Some False,
                      ch_is_general = Some False, ch_num_members = Some 0,
                      ch_purpose = None, ch_topic = None\<rparr>"

definition collision_env :: "slack_file message env" where
  "collision_env =
     scenario_env\<lparr>conversations_list := (\<lambda>tr. Inr (Some [general, general_reused]))\<rparr>"

definition collision_snapshot :: "slack_file message export_data" where
  "collision_snapshot =
     \<lparr>channels = [(''general'', channel_entry general_reused)],
      messages = [(''general'', [])],
      users = [(''U1'', alice), (''U2'', bob_new)],
      exportDate = 1700000000000,
      totalChannels = 2,
      totalUsers = 3,
      totalMessages = 0\<rparr>"

text \<open>
  The same workspace when the second listed channel is named \<open>__proto__\<close>, and a message
  whose author id is \<open>constructor\<close>.
\<close>

definition proto_channel :: channel where
  "proto_channel = \<lparr>ch_id = ''C4'', ch_name = ''__proto__'', ch_created = Some 1695000000,
                     ch_creator = Some ''U1'', ch_is_archived = Some False,
                     ch_is_general = Some False, ch_num_members = Some 2,
                     ch_purpose = None, ch_topic = None\<rparr>"

definition proto_env :: "slack_file message env" where
  "proto_env =
     scenario_env\<lparr>conversations_list := (\<lambda>tr. Inr (Some [general, proto_channel]))\<rparr>"

definition ghost :: slack_user where
  "ghost = \<lparr>user_id = ''undefined'', user_name = Some ''ghost'', user_real_name = None,
             profile = None\<rparr>"

definition stray_note :: "slack_file message" where
  "stray_note = bot_note\<lparr>user := Some ''constructor''\<rparr>"

definition refusing_env :: "slack_file message env" where
  "refusing_env = scenario_env\<lparr>fetch := (\<lambda>tr url token. Response False (Body ''denied''))\<rparr>"

definition big_png :: slack_file where
  "big_png = png\<lparr>file_size := Some (5 * 1024 * 1024 + 1)\<rparr>"

section \<open>Properties\<close>

subsection \<open>Dictionaries, the concurrent map, the example workspace\<close>

lemma map_of_define_own: "map_of (define_own k v ps) = (map_of ps)(k \<mapsto> v)"
  by (induction ps) auto

lemma keys_define_own:
  "map fst (define_own k v ps) = (if k \<in> set (map fst ps) then map fst ps else map fst ps @ [k])"
  by (induction ps) auto

text \<open>
  An object is regular when its own keys are distinct and none of them is \<open>__proto__\<close>;
  the empty object is, and assignments keep it so. On a regular object an assignment
  adds its key to the own keys unless the key is \<open>__proto__\<close>.
\<close>

lemma keys_assign:
  assumes "distinct (map fst (own obj))" and "''__proto__'' \<notin> set (map fst (own obj))"
  shows "distinct (map fst (own (assign k v obj)))
       \<and> ''__proto__'' \<notin> set (map fst (own (assign k v obj)))
       \<and> set (map fst (own (assign k v obj))) = set (map fst (own obj)) \<union> ({k} - {''__proto__''})"
proof (cases "k = ''__proto__''")
  case True
  with assms show ?thesis by (simp add: assign_def)
next
  case False
  with assms show ?thesis by (auto simp: assign_def keys_define_own)
qed

lemma map_of_assign_other:
  "n \<noteq> k \<Longrightarrow> map_of (own (assign k v obj)) n = map_of (own obj) n"
  by (simp add: assign_def map_of_define_own)

lemma map_of_assign_same:
  "k \<noteq> ''__proto__'' \<Longrightarrow> map_of (own (assign k v obj)) k = Some v"
  by (simp add: assign_def map_of_define_own)

lemma map_of_assign_proto:
  "''__proto__'' \<notin> set (map fst (own obj)) \<Longrightarrow>
     map_of (own (assign ''__proto__'' v obj)) n = map_of (own obj) n"
  by (simp add: assign_def)

lemma find_append:
  "find P (xs @ ys) = (case find P xs of None \<Rightarrow> find P ys | Some x \<Rightarrow> Some x)"
  by (induction xs) auto

lemma length_promise_all_map: "length (fst (promise_all_map f xs tr)) = length xs"
proof (induction xs arbitrary: tr)
  case Nil
  then show ?case by simp
next
  case (Cons x xs)
  obtain y tr1 where y: "f x tr = (y, tr1)" by (cases "f x tr")
  obtain ys tr2 where ys: "promise_all_map f xs tr1 = (ys, tr2)"
    by (cases "promise_all_map f xs tr1")
  from Cons.IH[of tr1] ys have "length ys = length xs" by simp
  then show ?case by (simp add: y ys)
qed

lemma nth_promise_all_map:
  "i < length xs \<Longrightarrow> \<exists>tr'. fst (promise_all_map f xs tr) ! i = fst (f (xs ! i) tr')"
proof (induction xs arbitrary: tr i)
  case Nil
  then show ?case by simp
next
  case (Cons x xs)
  obtain y tr1 where y: "f x tr = (y, tr1)" by (cases "f x tr")
  obtain ys tr2 where ys: "promise_all_map f xs tr1 = (ys, tr2)"
    by (cases "promise_all_map f xs tr1")
  show ?case
  proof (cases i)
    case 0
    have "fst (promise_all_map f (x # xs) tr) ! 0 = fst (f x tr)"
      by (simp add: y ys)
    then show ?thesis using 0 by auto
  next
    case (Suc j)
    then have "j < length xs" using Cons.prems by simp
    from Cons.IH[OF this, of tr1]
    obtain tr' where "fst (promise_all_map f xs tr1) ! j = fst (f (xs ! j) tr')"
      by blast
    then have "fst (promise_all_map f (x # xs) tr) ! i = fst (f ((x # xs) ! i) tr')"
      by (simp add: y ys Suc)
    then show ?thesis by blast
  qed
qed

lemmas scenario_defs =
  scenario_env_def collision_env_def proto_env_def refusing_env_def scenario_snapshot_def
  collision_snapshot_def png_def big_png_def alice_def bob_old_def bob_new_def ghost_def
  with_chart_def bot_note_def stray_note_def general_def secret_ops_def general_reused_def
  proto_channel_def

lemmas handler_defs =
  export_def harvestChannel_def transformMessage_def processMessageFiles_def embed_file_def
  shouldEmbed_def downloadFileAsBase64_def lookup_user_def author_key_def
  object_prototype_get_def object_prototype_functions_def user_own_property_def
  profile_snapshot_def channel_entry_def index_users_def assign_def empty_object_def
  thirtyDaysAgo_def or_nil_def or_empty_def or_zero_def js_or_def
  MAX_FILE_SIZE_BYTES_def EMBEDDABLE_MIMETYPES_def

lemma scenario_export: "export scenario_env = Inr scenario_snapshot"
  by (simp add: scenario_defs handler_defs)

lemma scenario_handler:
  "handler scenario_env \<lparr>http_method = ''POST'', passkey = Some ''secret''\<rparr>
     = Success 200 scenario_snapshot"
  by (simp add: handler_def scenario_export) (simp add: scenario_env_def)

lemma scenario_channels:
  "conversations_list scenario_env [AuthTest] = Inr (Some [general, secret_ops])"
  by (simp add: scenario_env_def)

lemma scenario_users:
  "users_list scenario_env [AuthTest, ConversationsList] = Inr (Some [alice, bob_old, bob_new])"
  by (simp add: scenario_env_def)

lemma scenario_auth: "auth_test scenario_env [] = Inr ()"
  by (simp add: scenario_env_def)

text \<open>
  When the connection test and the two listings answer, the handler reaches the snapshot,
  whatever the history requests and the downloads do.
\<close>

lemma export_succeeds:
  assumes "auth_test en [] = Inr a"
    and "conversations_list en [AuthTest] = Inr channelsResponse"
    and "users_list en [AuthTest, ConversationsList] = Inr usersResponse"
  shows "\<exists>snap. export en = Inr snap"
  using assms by (simp add: export_def Let_def)

subsection \<open>The keys of the channel dictionaries\<close>

lemma channelData_step:
  "channelData (harvestChannel en idx ch st) =
     assign (ch_name ch) (channel_entry ch) (channelData st)"
  by (simp add: harvestChannel_def Let_def split: sum.splits prod.splits)

lemma channelMessages_step:
  "\<exists>msgs. channelMessages (harvestChannel en idx ch st) =
     assign (ch_name ch) msgs (channelMessages st)"
proof (cases "conversations_history en (trace st) (ch_id ch) (thirtyDaysAgo (now en (trace st)))")
  case (Inl channelError)
  then have "channelMessages (harvestChannel en idx ch st) =
               assign (ch_name ch) [] (channelMessages st)"
    by (simp add: harvestChannel_def)
  then show ?thesis by blast
next
  case (Inr historyResponse)
  obtain ms tr' where "promise_all_map (transformMessage en idx) (or_nil historyResponse)
                         (trace st @ [ConversationsHistory (ch_id ch)]) = (ms, tr')"
    by (cases "promise_all_map (transformMessage en idx) (or_nil historyResponse)
                 (trace st @ [ConversationsHistory (ch_id ch)])")
  with Inr have "channelMessages (harvestChannel en idx ch st) =
               assign (ch_name ch) ms (channelMessages st)"
    by (simp add: harvestChannel_def)
  then show ?thesis by blast
qed

lemma keys_union_step:
  "X = Y \<union> ({c} - P) \<Longrightarrow> Z = X \<union> (B - P) \<Longrightarrow> Z = Y \<union> (insert c B - P)"
  by blast

lemma keys_channelData_loop:
  assumes "distinct (map fst (own (channelData st)))"
    and "''__proto__'' \<notin> set (map fst (own (channelData st)))"
  shows "distinct (map fst (own (channelData (harvestChannels en idx chs st))))
       \<and> ''__proto__'' \<notin> set (map fst (own (channelData (harvestChannels en idx chs st))))
       \<and> set (map fst (own (channelData (harvestChannels en idx chs st)))) =
           set (map fst (own (channelData st))) \<union> (set (map ch_name chs) - {''__proto__''})"
  using assms
proof (induction chs arbitrary: st)
  case Nil
  then show ?case by simp
next
  case (Cons ch chs)
  let ?st = "harvestChannel en idx ch st"
  have k: "distinct (map fst (own (channelData ?st)))
       \<and> ''__proto__'' \<notin> set (map fst (own (channelData ?st)))
       \<and> set (map fst (own (channelData ?st))) =
           set (map fst (own (channelData st))) \<union> ({ch_name ch} - {''__proto__''})"
    unfolding channelData_step using Cons.prems by (rule keys_assign)
  note d = k[THEN conjunct1] and p = k[THEN conjunct2, THEN conjunct1]
    and e = k[THEN conjunct2, THEN conjunct2]
  note ih = Cons.IH[OF d p]
  have u: "set (map fst (own (channelData (harvestChannels en idx chs ?st)))) =
           set (map fst (own (channelData st)))
             \<union> (insert (ch_name ch) (set (map ch_name chs)) - {''__proto__''})"
    by (rule keys_union_step[OF e ih[THEN conjunct2, THEN conjunct2]])
  show ?case
    unfolding harvestChannels.simps foldl.simps list.map list.simps(15) image_insert
    by (rule conjI[OF ih[THEN conjunct1] conjI[OF ih[THEN conjunct2, THEN conjunct1] u]])
qed

lemma keys_channelMessages_loop:
  assumes "distinct (map fst (own (channelMessages st)))"
    and "''__proto__'' \<notin> set (map fst (own (channelMessages st)))"
  shows "distinct (map fst (own (channelMessages (harvestChannels en idx chs st))))
       \<and> ''__proto__'' \<notin> set (map fst (own (channelMessages (harvestChannels en idx chs st))))
       \<and> set (map fst (own (channelMessages (harvestChannels en idx chs st)))) =
           set (map fst (own (channelMessages st))) \<union> (set (map ch_name chs) - {''__proto__''})"
  using assms
proof (induction chs arbitrary: st)
  case Nil
  then show ?case by simp
next
  case (Cons ch chs)
  let ?st = "harvestChannel en idx ch st"
  obtain msgs where m: "channelMessages ?st = assign (ch_name ch) msgs (channelMessages st)"
    using channelMessages_step by blast
  have k: "distinct (map fst (own (channelMessages ?st)))
       \<and> ''__proto__'' \<notin> set (map fst (own (channelMessages ?st)))
       \<and> set (map fst (own (channelMessages ?st))) =
           set (map fst (own (channelMessages st))) \<union> ({ch_name ch} - {''__proto__''})"
    unfolding m using Cons.prems by (rule keys_assign)
  note d = k[THEN conjunct1] and p = k[THEN conjunct2, THEN conjunct1]
    and e = k[THEN conjunct2, THEN conjunct2]
  note ih = Cons.IH[OF d p]
  have u: "set (map fst (own (channelMessages (harvestChannels en idx chs ?st)))) =
           set (map fst (own (channelMessages st)))
             \<union> (insert (ch_name ch) (set (map ch_name chs)) - {''__proto__''})"
    by (rule keys_union_step[OF e ih[THEN conjunct2, THEN conjunct2]])
  show ?case
    unfolding harvestChannels.simps foldl.simps list.map list.simps(15) image_insert
    by (rule conjI[OF ih[THEN conjunct1] conjI[OF ih[THEN conjunct2, THEN conjunct1] u]])
qed

text \<open>
  Started on empty dictionaries, the loop leaves one entry for each distinct channel name
  other than \<open>__proto__\<close>.
\<close>

lemma entries_channelData:
  "length (own (channelData (harvestChannels en idx chs
      \<lparr>channelMessages = empty_object, channelData = empty_object, trace = tr\<rparr>)))
     = card (set (map ch_name chs) - {''__proto__''})"
proof -
  let ?st = "\<lparr>channelMessages = empty_object, channelData = empty_object, trace = tr\<rparr>"
  let ?ks = "map fst (own (channelData (harvestChannels en idx chs ?st)))"
  have "distinct ?ks \<and> set ?ks = set (map ch_name chs) - {''__proto__''}"
    using keys_channelData_loop[of ?st en idx chs] by (simp add: empty_object_def)
  then have "length ?ks = card (set (map ch_name chs) - {''__proto__''})"
    using distinct_card by metis
  then show ?thesis by simp
qed

lemma entries_channelMessages:
  "length (own (channelMessages (harvestChannels en idx chs
      \<lparr>channelMessages = empty_object, channelData = empty_object, trace = tr\<rparr>)))
     = card (set (map ch_name chs) - {''__proto__''})"
proof -
  let ?st = "\<lparr>channelMessages = empty_object, channelData = empty_object, trace = tr\<rparr>"
  let ?ks = "map fst (own (channelMessages (harvestChannels en idx chs ?st)))"
  have "distinct ?ks \<and> set ?ks = set (map ch_name chs) - {''__proto__''}"
    using keys_channelMessages_loop[of ?st en idx chs] by (simp add: empty_object_def)
  then have "length ?ks = card (set (map ch_name chs) - {''__proto__''})"
    using distinct_card by metis
  then show ?thesis by simp
qed

lemma export_channels:
  assumes "export en = Inr snap" and "conversations_list en [AuthTest] = Inr listing"
  shows "\<exists>idx. channels snap = own (channelData (harvestChannels en idx (or_nil listing)
            \<lparr>channelMessages = empty_object, channelData = empty_object,
             trace = [AuthTest, ConversationsList, UsersList]\<rparr>))
        \<and> messages snap = own (channelMessages (harvestChannels en idx (or_nil listing)
            \<lparr>channelMessages = empty_object, channelData = empty_object,
             trace = [AuthTest, ConversationsList, UsersList]\<rparr>))"
  using assms by (auto simp: export_def Let_def split: sum.splits)

lemma export_totalChannels:
  assumes "export en = Inr snap" and "conversations_list en [AuthTest] = Inr listing"
  shows "totalChannels snap = length (or_nil listing)"
  using assms by (auto simp: export_def Let_def split: sum.splits)

text \<open>
  Whatever the names are: \<open>totalChannels\<close> counts the listed channels, and each of the
  two dictionaries has one entry for each distinct name other than \<open>__proto__\<close>.
\<close>

lemma export_channel_counts:
  assumes "export en = Inr snap" and "conversations_list en [AuthTest] = Inr listing"
  shows "totalChannels snap = length (or_nil listing)
     \<and> length (channels snap) = card (set (map ch_name (or_nil listing)) - {''__proto__''})
     \<and> length (messages snap) = card (set (map ch_name (or_nil listing)) - {''__proto__''})"
proof -
  have t: "totalChannels snap = length (or_nil listing)"
    using assms by (rule export_totalChannels)
  have c: "length (channels snap) = card (set (map ch_name (or_nil listing)) - {''__proto__''})"
    using export_channels[OF assms] entries_channelData by metis
  have m: "length (messages snap) = card (set (map ch_name (or_nil listing)) - {''__proto__''})"
    using export_channels[OF assms] entries_channelMessages by metis
  show ?thesis using t c m by simp
qed

subsection \<open>The channel dictionary and its counter\<close>

text \<open>
  C1, as the handler has it. When the channel listing returns N channels whose names are
  pairwise distinct and none of which is \<open>__proto__\<close>, then however many of the history
  requests fail, the snapshot has exactly N entries in \<open>channels\<close> and N in \<open>messages\<close>,
  and \<open>totalChannels\<close> is the number of entries of \<open>channels\<close>. The dictionaries are plain
  objects keyed by channel name and the counter is the length of the listing, so the
  names have to differ and have to be names that an assignment stores.
\<close>

theorem channel_mapping_entries:
  assumes "export en = Inr snap"
    and "conversations_list en [AuthTest] = Inr listing"
    and "distinct (map ch_name (or_nil listing))"
    and "''__proto__'' \<notin> set (map ch_name (or_nil listing))"
  shows "length (channels snap) = length (or_nil listing)
       \<and> length (messages snap) = length (or_nil listing)
       \<and> totalChannels snap = length (channels snap)"
proof -
  have "set (map ch_name (or_nil listing)) - {''__proto__''} = set (map ch_name (or_nil listing))"
    using assms(4) by blast
  then have "card (set (map ch_name (or_nil listing)) - {''__proto__''}) = length (or_nil listing)"
    using distinct_card[OF assms(3)] by simp
  then show ?thesis
    using export_channel_counts[OF assms(1,2)] by simp
qed

text \<open>
  In the example workspace the two names differ, neither is \<open>__proto__\<close>, and the second
  history request is refused: two entries, counter two.
\<close>

theorem channel_mapping_entries_witness:
  "export scenario_env = Inr scenario_snapshot
   \<and> distinct (map ch_name [general, secret_ops])
   \<and> ''__proto__'' \<notin> set (map ch_name [general, secret_ops])
   \<and> length (channels scenario_snapshot) = 2
   \<and> length (messages scenario_snapshot) = 2
   \<and> totalChannels scenario_snapshot = length (channels scenario_snapshot)"
proof -
  have d: "distinct (map ch_name (or_nil (Some [general, secret_ops])))"
    by (simp add: or_nil_def general_def secret_ops_def)
  have p: "''__proto__'' \<notin> set (map ch_name (or_nil (Some [general, secret_ops])))"
    by (simp add: or_nil_def general_def secret_ops_def)
  from channel_mapping_entries[OF scenario_export scenario_channels d p] d p scenario_export
  show ?thesis by (simp add: or_nil_def)
qed

text \<open>
  C1 as stated fails when two listed channels share a name: the listing returns two
  channels named \<open>general\<close>, the later one replaces the earlier one in both dictionaries,
  and the snapshot has one entry while \<open>totalChannels\<close> is two. It fails as well when a
  listed channel is named \<open>__proto__\<close>: the listing returns \<open>general\<close> and \<open>__proto__\<close>, the
  two assignments for \<open>__proto__\<close> replace the prototypes of the dictionaries, and the
  snapshot has the one entry \<open>general\<close> while \<open>totalChannels\<close> is two.
\<close>

theorem channel_mapping_collision:
  "conversations_list collision_env [AuthTest] = Inr (Some [general, general_reused])
   \<and> export collision_env = Inr collision_snapshot
   \<and> length (channels collision_snapshot) = 1
   \<and> totalChannels collision_snapshot = 2
   \<and> conversations_list proto_env [AuthTest] = Inr (Some [general, proto_channel])
   \<and> distinct (map ch_name [general, proto_channel])
   \<and> map fst (channels (projr (export proto_env))) = [''general'']
   \<and> map fst (messages (projr (export proto_env))) = [''general'']
   \<and> totalChannels (projr (export proto_env)) = 2"
  by (simp add: scenario_defs handler_defs)

subsection \<open>The message counter\<close>

lemma foldl_sum_lengths:
  "foldl (\<lambda>sum msgs. sum + length msgs) a xs = a + sum_list (map length xs)"
  by (induction xs arbitrary: a) auto

lemma sum_bundle_lengths:
  "(\<Sum>(k, msgs) \<leftarrow> xs. length msgs) = sum_list (map length (map snd xs))"
  by (induction xs) auto

text \<open>
  C2. In every snapshot the handler builds, \<open>totalMessages\<close> is the sum, over the entries
  of \<open>messages\<close>, of the length of the entry's message list; entries left empty by a
  failed history request count zero.
\<close>

theorem totalMessages_is_sum:
  assumes "export en = Inr snap"
  shows "totalMessages snap = (\<Sum>(k, msgs) \<leftarrow> messages snap. length msgs)"
proof -
  have "totalMessages snap =
          foldl (\<lambda>sum msgs. sum + length msgs) 0 (map snd (messages snap))"
    using assms by (auto simp: export_def Let_def split: sum.splits)
  also have "\<dots> = sum_list (map length (map snd (messages snap)))"
    by (simp only: foldl_sum_lengths add_0)
  finally show ?thesis
    by (simp only: sum_bundle_lengths)
qed

text \<open>In the example workspace: two messages in \<open>general\<close>, none in \<open>secret-ops\<close>.\<close>

theorem totalMessages_is_sum_witness:
  "export scenario_env = Inr scenario_snapshot
   \<and> map_of (messages scenario_snapshot) ''secret-ops'' = Some []
   \<and> totalMessages scenario_snapshot = 2
   \<and> (\<Sum>(k, msgs) \<leftarrow> messages scenario_snapshot. length msgs) = 2"
proof -
  have "totalMessages scenario_snapshot = 2"
    by (simp add: scenario_snapshot_def)
  with totalMessages_is_sum[OF scenario_export] scenario_export show ?thesis
    by (simp add: scenario_snapshot_def)
qed

subsection \<open>Embedding one file\<close>

lemma download_Some:
  "fst (downloadFileAsBase64 en url token tr) = Some b \<Longrightarrow>
     \<exists>bytes. fetch en tr url token = Response True (Body bytes)"
  by (auto simp: downloadFileAsBase64_def split: fetch_result.splits body_result.splits if_splits)

text \<open>
  C3. For every file descriptor and every answer of the download, the result of embedding
  is the descriptor itself, or the descriptor with \<open>file_data\<close> set to a non-empty
  payload and \<open>file_data_mimetype\<close> set to the descriptor's (defined) mimetype. Apart from
  these two properties every property of the descriptor, listed or not, is the one of the
  input. When the download fails (fetch rejects, the response is not ok, or reading its
  body rejects) the result is the descriptor itself. The function has a result for every
  answer of the download, so nothing is thrown to the message or the channel.
\<close>

theorem embed_upgrade_only:
  "(fst (embed_file en token f tr) = f
      \<or> (\<exists>b. b \<noteq> [] \<and> mimetype f \<noteq> None \<and>
            fst (embed_file en token f tr) =
              f\<lparr>file_data := Some b, file_data_mimetype := mimetype f\<rparr>))
   \<and> (fst (embed_file en token f tr))\<lparr>file_data := file_data f,
          file_data_mimetype := file_data_mimetype f\<rparr> = f
   \<and> (fetch en tr (or_empty (url_private f)) token = FetchThrows
        \<or> (\<exists>b. fetch en tr (or_empty (url_private f)) token = Response False b)
        \<or> fetch en tr (or_empty (url_private f)) token = Response True BodyThrows
       \<longrightarrow> fst (embed_file en token f tr) = f)"
proof (cases "shouldEmbed f")
  case False
  then show ?thesis by (simp add: embed_file_def)
next
  case True
  then have mt: "mimetype f \<noteq> None"
    by (cases "mimetype f") (simp_all add: shouldEmbed_def)
  obtain d tr' where d: "downloadFileAsBase64 en (or_empty (url_private f)) token tr = (d, tr')"
    by (cases "downloadFileAsBase64 en (or_empty (url_private f)) token tr")
  show ?thesis
  proof (cases "truthy d")
    case False
    with True d show ?thesis by (simp add: embed_file_def)
  next
    case t: True
    then obtain b where b: "d = Some b" "b \<noteq> []"
      by (cases d) auto
    have out: "fst (embed_file en token f tr) =
                 f\<lparr>file_data := Some b, file_data_mimetype := mimetype f\<rparr>"
      using True d b by (simp add: embed_file_def)
    have nofail: "\<not> (fetch en tr (or_empty (url_private f)) token = FetchThrows
        \<or> (\<exists>b. fetch en tr (or_empty (url_private f)) token = Response False b)
        \<or> fetch en tr (or_empty (url_private f)) token = Response True BodyThrows)"
      using download_Some[of en "or_empty (url_private f)" token tr b] d b by auto
    have p1: "fst (embed_file en token f tr) = f
      \<or> (\<exists>b. b \<noteq> [] \<and> mimetype f \<noteq> None \<and>
            fst (embed_file en token f tr) =
              f\<lparr>file_data := Some b, file_data_mimetype := mimetype f\<rparr>)"
      using out b mt by blast
    have p2: "(fst (embed_file en token f tr))\<lparr>file_data := file_data f,
          file_data_mimetype := file_data_mimetype f\<rparr> = f"
      by (simp add: out)
    from p1 p2 nofail show ?thesis by blast
  qed
qed

text \<open>
  The PNG of the example is eligible; where the download answers with a status that is
  not ok, it comes back as it went in.
\<close>

theorem embed_upgrade_only_witness:
  "shouldEmbed png
   \<and> fetch refusing_env [] ''https://files.slack.com/T1/chart.png'' (Some ''xoxb-1'')
       = Response False (Body ''denied'')
   \<and> fst (embed_file refusing_env (Some ''xoxb-1'') png []) = png"
proof -
  have e: "shouldEmbed png"
    by (simp add: shouldEmbed_def png_def MAX_FILE_SIZE_BYTES_def EMBEDDABLE_MIMETYPES_def)
  have u: "or_empty (url_private png) = ''https://files.slack.com/T1/chart.png''"
    by (simp add: or_empty_def png_def)
  have r: "fetch refusing_env [] ''https://files.slack.com/T1/chart.png'' (Some ''xoxb-1'')
             = Response False (Body ''denied'')"
    by (simp add: refusing_env_def scenario_env_def)
  from embed_upgrade_only[where en = refusing_env and token = "Some ''xoxb-1''" and f = png
      and tr = "[]"] e r
  show ?thesis by (simp only: u) blast
qed

text \<open>
  C4. A file descriptor without a truthy \<open>url_private\<close>, or with a size above
  5 * 1024 * 1024 bytes, or with a mimetype outside JPEG, PNG, GIF, WEBP and SVG, comes
  back identical, and the log of effects is the one before the call: nothing has been
  fetched.
\<close>

theorem ineligible_file_unchanged:
  assumes "\<not> truthy (url_private f)
         \<or> (\<exists>n. file_size f = Some n \<and> n > 5 * 1024 * 1024)
         \<or> mimetype f \<notin> Some ` {''image/jpeg'', ''image/png'', ''image/gif'', ''image/webp'',
                                  ''image/svg+xml''}"
  shows "embed_file en token f tr = (f, tr)"
proof -
  have "\<not> shouldEmbed f"
    using assms
    by (auto simp: shouldEmbed_def MAX_FILE_SIZE_BYTES_def EMBEDDABLE_MIMETYPES_def
        split: option.splits)
  then show ?thesis by (simp add: embed_file_def)
qed

text \<open>One byte above the ceiling, with a download that would succeed.\<close>

theorem ineligible_file_unchanged_witness:
  "file_size big_png = Some (5 * 1024 * 1024 + 1)
   \<and> embed_file scenario_env (Some ''xoxb-1'') big_png [] = (big_png, [])"
proof -
  have s: "file_size big_png = Some (5 * 1024 * 1024 + 1)"
    by (simp add: big_png_def)
  then have "\<exists>n. file_size big_png = Some n \<and> n > 5 * 1024 * 1024"
    by simp
  then have "embed_file scenario_env (Some ''xoxb-1'') big_png [] = (big_png, [])"
    by (intro ineligible_file_unchanged) blast
  with s show ?thesis by blast
qed

subsection \<open>A channel whose history request fails\<close>




subsection \<open>Failed channels in the snapshot\<close>

lemma harvestChannels_append:
  "harvestChannels en idx (xs @ ys) st = harvestChannels en idx ys (harvestChannels en idx xs st)"
  by (induction xs arbitrary: st) simp_all

lemma other_name_step:
  "n \<noteq> ch_name ch \<Longrightarrow>
     map_of (own (channelMessages (harvestChannel en idx ch st))) n
       = map_of (own (channelMessages st)) n
   \<and> map_of (own (channelData (harvestChannel en idx ch st))) n = map_of (own (channelData st)) n"
  by (simp add: harvestChannel_def map_of_assign_other Let_def split: sum.splits prod.splits)

lemma other_names_loop:
  "n \<notin> set (map ch_name chs) \<Longrightarrow>
     map_of (own (channelMessages (harvestChannels en idx chs st))) n
       = map_of (own (channelMessages st)) n
   \<and> map_of (own (channelData (harvestChannels en idx chs st))) n = map_of (own (channelData st)) n"
  by (induction chs arbitrary: st) (simp_all add: other_name_step)

text \<open>
  Every listed channel not named \<open>__proto__\<close> leaves an entry in \<open>channelData\<close>: under
  each such name, the descriptor of the last listed channel with that name, whether its
  harvest failed or not.
\<close>

lemma channelData_last_wins:
  assumes "n \<noteq> ''__proto__''"
  shows "map_of (own (channelData (harvestChannels en idx chs st))) n =
     (case find (\<lambda>c. ch_name c = n) (rev chs) of
        Some c \<Rightarrow> Some (channel_entry c)
      | None \<Rightarrow> map_of (own (channelData st)) n)"
proof (induction chs arbitrary: st)
  case Nil
  then show ?case by simp
next
  case (Cons ch chs)
  have "map_of (own (channelData (harvestChannels en idx (ch # chs) st))) n =
          (case find (\<lambda>c. ch_name c = n) (rev chs) of
             Some c \<Rightarrow> Some (channel_entry c)
           | None \<Rightarrow> map_of (own (channelData (harvestChannel en idx ch st))) n)"
    by (simp only: harvestChannels.simps Cons.IH)
  moreover have "map_of (own (channelData (harvestChannel en idx ch st))) n =
          (if ch_name ch = n then Some (channel_entry ch) else map_of (own (channelData st)) n)"
    using assms map_of_assign_same[of "ch_name ch" "channel_entry ch" "channelData st"]
      map_of_assign_other[of n "ch_name ch" "channel_entry ch" "channelData st"]
    by (auto simp: channelData_step)
  ultimately show ?case
    by (simp add: find_append split: option.splits)
qed

text \<open>
  A channel whose history request fails, which is not named \<open>__proto__\<close> and whose name
  no later channel of the listing has, is in the snapshot with its descriptor and no
  messages.
\<close>

lemma failed_channel_in_snapshot:
  assumes i: "i < length chs"
    and name: "ch_name (chs ! i) \<noteq> ''__proto__''"
    and later: "ch_name (chs ! i) \<notin> set (map ch_name (drop (Suc i) chs))"
    and before: "before = harvestChannels en idx (take i chs) st"
    and fails: "conversations_history en (trace before) (ch_id (chs ! i))
                  (thirtyDaysAgo (now en (trace before))) = Inl channelError"
  shows "map_of (own (channelMessages (harvestChannels en idx chs st))) (ch_name (chs ! i))
           = Some []
       \<and> map_of (own (channelData (harvestChannels en idx chs st))) (ch_name (chs ! i))
           = Some (channel_entry (chs ! i))"
proof -
  have split: "chs = take i chs @ [chs ! i] @ drop (Suc i) chs"
    using i by (simp add: id_take_nth_drop[symmetric])
  let ?mid = "harvestChannel en idx (chs ! i) before"
  have run: "harvestChannels en idx chs st = harvestChannels en idx (drop (Suc i) chs) ?mid"
    using harvestChannels_append[of en idx "take i chs" "[chs ! i] @ drop (Suc i) chs" st]
      split before by simp
  have mid: "map_of (own (channelMessages ?mid)) (ch_name (chs ! i)) = Some []
           \<and> map_of (own (channelData ?mid)) (ch_name (chs ! i))
               = Some (channel_entry (chs ! i))"
    using fails name by (simp add: harvestChannel_def map_of_assign_same)
  show ?thesis
    using other_names_loop[OF later, of en idx ?mid] mid run by simp
qed

subsection \<open>The author's profile\<close>

lemma lookup_user_own:
  "map_of (own usersById) uid = Some u \<Longrightarrow> lookup_user usersById (Some uid) = JUser u"
  by (simp add: lookup_user_def author_key_def)





text \<open>
  C7. For a message whose author is found in the user index, \<open>user_profile\<close> is an object
  with three properties. Its display name is the display name of the author's profile
  when that is a non-empty string, otherwise the author's real name when that is a
  non-empty string, otherwise the author's handle. Its real name is the author's real
  name when that is a non-empty string, otherwise the handle. Its avatar is the profile's
  \<open>image_72\<close>. For an author with neither real name nor profile display name, display
  name and real name are the handle.
\<close>

theorem author_profile_fallbacks:
  assumes "user m = Some uid" and "map_of (own usersById) uid = Some u"
  shows "user_profile (fst (transformMessage en usersById m tr)) =
           Obj \<lparr>display_name =
                  (if (case profile u of None \<Rightarrow> None | Some q \<Rightarrow> display_name q)
                        \<notin> {None, Some []}
                   then (case profile u of None \<Rightarrow> None | Some q \<Rightarrow> display_name q)
                   else if user_real_name u \<notin> {None, Some []} then user_real_name u
                   else user_name u),
                real_name =
                  (if user_real_name u \<notin> {None, Some []} then user_real_name u
                   else user_name u),
                image_72 = (case profile u of None \<Rightarrow> None | Some q \<Rightarrow> image_72 q)\<rparr>
       \<and> (user_real_name u = None
            \<and> (case profile u of None \<Rightarrow> None | Some q \<Rightarrow> display_name q) = None
          \<longrightarrow> user_profile (fst (transformMessage en usersById m tr)) =
                Obj \<lparr>display_name = user_name u, real_name = user_name u,
                     image_72 = (case profile u of None \<Rightarrow> None | Some q \<Rightarrow> image_72 q)\<rparr>)"
proof -
  have t: "truthy a \<longleftrightarrow> a \<notin> {None, Some []}" for a
    by (cases a) auto
  have "lookup_user usersById (user m) = JUser u"
    using assms by (simp add: lookup_user_own)
  then have "user_profile (fst (transformMessage en usersById m tr)) = Obj (profile_snapshot (JUser u))"
    by (simp add: transformMessage_def split: prod.splits option.splits)
  then show ?thesis
    by (simp add: profile_snapshot_def js_or_def t)
qed

text \<open>alice has only a handle.\<close>

theorem author_profile_fallbacks_witness:
  "user with_chart = Some ''U1''
   \<and> map_of (own (index_users [alice, bob_old, bob_new])) ''U1'' = Some alice
   \<and> user_real_name alice = None \<and> profile alice = None
   \<and> user_profile (fst (transformMessage scenario_env (index_users [alice, bob_old, bob_new])
        with_chart [])) =
       Obj \<lparr>display_name = Some ''alice'', real_name = Some ''alice'', image_72 = None\<rparr>"
proof -
  have a: "user with_chart = Some ''U1''"
    by (simp add: with_chart_def)
  have b: "map_of (own (index_users [alice, bob_old, bob_new])) ''U1'' = Some alice"
    by (simp add: index_users_def assign_def empty_object_def alice_def bob_old_def bob_new_def)
  have c: "user_real_name alice = None" "profile alice = None" "user_name alice = Some ''alice''"
    by (simp_all add: alice_def)
  from author_profile_fallbacks[OF a b, where en = scenario_env and tr = "[]"] a b c
  show ?thesis
    by simp
qed

subsection \<open>The pacing delay\<close>

text \<open>
  The log of effects of one turn of the loop: a successful harvest ends with the pause of
  100 ms, a failed one ends with the history request.
\<close>

lemma harvest_success_trace:
  assumes "conversations_history en (trace st) (ch_id ch) (thirtyDaysAgo (now en (trace st)))
             = Inr historyResponse"
  shows "\<exists>tr'. trace (harvestChannel en usersById ch st) = tr' @ [Sleep 100]"
  using assms by (simp add: harvestChannel_def Let_def split: prod.splits)

lemma harvest_failure_trace:
  assumes "conversations_history en (trace st) (ch_id ch) (thirtyDaysAgo (now en (trace st)))
             = Inl channelError"
  shows "trace (harvestChannel en usersById ch st) = trace st @ [ConversationsHistory (ch_id ch)]"
  using assms by (simp add: harvestChannel_def)

text \<open>
  C8 (after every channel harvest, successful or failed, the handler pauses before the
  next channel) does not hold of the handler: the pause is the last statement of the
  \<open>try\<close> block and the \<open>catch\<close> block has none. In the example workspace the log shows the
  pause after \<open>general\<close> and nothing after the refused request for \<open>secret-ops\<close>.
\<close>

theorem failed_harvest_skips_delay:
  "trace (harvestChannels scenario_env (index_users [alice, bob_old, bob_new])
            [general, secret_ops]
            \<lparr>channelMessages = empty_object, channelData = empty_object,
             trace = [AuthTest, ConversationsList, UsersList]\<rparr>) =
     [AuthTest, ConversationsList, UsersList,
      ConversationsHistory ''C1'', Fetch ''https://files.slack.com/T1/chart.png'', Sleep 100,
      ConversationsHistory ''C2'']"
  by (simp add: scenario_defs handler_defs)

subsection \<open>What enrichment leaves alone\<close>

text \<open>
  C9. The transformed message is the input message with \<open>files\<close> and \<open>user_profile\<close>
  replaced: setting these two back gives the input, with every other property, listed or
  not; \<open>user\<close>, \<open>ts\<close>, \<open>text\<close>, \<open>subtype\<close>, \<open>reactions\<close> and \<open>thread_ts\<close> are those of the
  input. Without \<open>files\<close> the result has none; otherwise the new list is as long as the
  old one and its i-th element is the result of embedding the i-th file. The result is a
  new record; the function reads its argument and assigns to no property of it.
\<close>

theorem enrichment_frame:
  "(fst (transformMessage en usersById m tr))\<lparr>files := files m, user_profile := user_profile m\<rparr> = m
   \<and> user (fst (transformMessage en usersById m tr)) = user m
   \<and> ts (fst (transformMessage en usersById m tr)) = ts m
   \<and> msg_text (fst (transformMessage en usersById m tr)) = msg_text m
   \<and> subtype (fst (transformMessage en usersById m tr)) = subtype m
   \<and> reactions (fst (transformMessage en usersById m tr)) = reactions m
   \<and> thread_ts (fst (transformMessage en usersById m tr)) = thread_ts m
   \<and> (case files m of
        None \<Rightarrow> files (fst (transformMessage en usersById m tr)) = None
      | Some l \<Rightarrow>
          (\<exists>l'. files (fst (transformMessage en usersById m tr)) = Some l'
             \<and> length l' = length l
             \<and> (\<forall>i<length l.
                   \<exists>tr'. l' ! i = fst (embed_file en (SLACK_BOT_TOKEN en) (l ! i) tr'))))"
proof -
  obtain pf tr' where pf: "(case files m of
              Some l \<Rightarrow> processMessageFiles en (files m) (SLACK_BOT_TOKEN en) tr
            | None \<Rightarrow> (None, tr)) = (pf, tr')"
    by (cases "(case files m of
              Some l \<Rightarrow> processMessageFiles en (files m) (SLACK_BOT_TOKEN en) tr
            | None \<Rightarrow> (None, tr))")
  have out: "fst (transformMessage en usersById m tr) =
      m\<lparr>files := pf, user_profile :=
               (if truthy_value (lookup_user usersById (user m))
                then Obj (profile_snapshot (lookup_user usersById (user m)))
                else Null)\<rparr>"
    by (simp add: transformMessage_def pf)
  have fl: "(case files m of
        None \<Rightarrow> pf = None
      | Some l \<Rightarrow>
          (\<exists>l'. pf = Some l'
             \<and> length l' = length l
             \<and> (\<forall>i<length l.
                   \<exists>tr'. l' ! i = fst (embed_file en (SLACK_BOT_TOKEN en) (l ! i) tr'))))"
  proof (cases "files m")
    case None
    with pf show ?thesis by simp
  next
    case (Some l)
    show ?thesis
    proof (cases "l = []")
      case True
      have "pf = Some []"
        using pf Some True by (simp add: processMessageFiles_def)
      then show ?thesis by (simp add: Some True)
    next
      case False
      obtain l' t2 where l': "promise_all_map (embed_file en (SLACK_BOT_TOKEN en)) l tr = (l', t2)"
        by (cases "promise_all_map (embed_file en (SLACK_BOT_TOKEN en)) l tr")
      have p: "pf = Some l'"
        using pf Some False l' by (simp add: processMessageFiles_def)
      have len: "length l' = length l"
        using length_promise_all_map[of "embed_file en (SLACK_BOT_TOKEN en)" l tr] l' by simp
      have el: "\<forall>i<length l. \<exists>tr'. l' ! i = fst (embed_file en (SLACK_BOT_TOKEN en) (l ! i) tr')"
        using nth_promise_all_map[of _ l "embed_file en (SLACK_BOT_TOKEN en)" tr] l' by simp
      show ?thesis using Some p len el by simp
    qed
  qed
  have fo: "files (fst (transformMessage en usersById m tr)) = pf"
    by (simp add: out)
  have fr: "(fst (transformMessage en usersById m tr))\<lparr>files := files m,
      user_profile := user_profile m\<rparr> = m"
    by (simp add: out)
  have sel: "user (fst (transformMessage en usersById m tr)) = user m"
    "ts (fst (transformMessage en usersById m tr)) = ts m"
    "msg_text (fst (transformMessage en usersById m tr)) = msg_text m"
    "subtype (fst (transformMessage en usersById m tr)) = subtype m"
    "reactions (fst (transformMessage en usersById m tr)) = reactions m"
    "thread_ts (fst (transformMessage en usersById m tr)) = thread_ts m"
    by (simp_all add: out)
  from fl fr sel show ?thesis
    unfolding fo by blast
qed

text \<open>The message with the chart: one file in, one file out, the reaction kept.\<close>

theorem enrichment_frame_witness:
  "files with_chart = Some [png]
   \<and> ts (fst (transformMessage scenario_env empty_object with_chart [])) = ''1700000000.000100''
   \<and> reactions (fst (transformMessage scenario_env empty_object with_chart [])) = Some [(''thumbsup'', 2)]
   \<and> (\<exists>l'. files (fst (transformMessage scenario_env empty_object with_chart [])) = Some l'
          \<and> length l' = 1
          \<and> (\<exists>tr'. l' ! 0 = fst (embed_file scenario_env (Some ''xoxb-1'') png tr')))"
proof -
  have f: "files with_chart = Some [png]"
    by (simp add: with_chart_def)
  have t: "SLACK_BOT_TOKEN scenario_env = Some ''xoxb-1''"
    by (simp add: scenario_env_def)
  have s: "ts with_chart = ''1700000000.000100''" "reactions with_chart = Some [(''thumbsup'', 2)]"
    by (simp_all add: with_chart_def)
  from enrichment_frame[where en = scenario_env and usersById = empty_object and m = with_chart
      and tr = "[]"]
  show ?thesis
    by (simp add: f t s)
qed

subsection \<open>The user counter and the user index\<close>

lemma keys_index_fold:
  assumes "distinct (map fst (own acc))" and "''__proto__'' \<notin> set (map fst (own acc))"
  shows "distinct (map fst (own (foldl (\<lambda>usersById u. assign (user_id u) u usersById) acc us)))
       \<and> ''__proto__'' \<notin>
           set (map fst (own (foldl (\<lambda>usersById u. assign (user_id u) u usersById) acc us)))
       \<and> set (map fst (own (foldl (\<lambda>usersById u. assign (user_id u) u usersById) acc us))) =
           set (map fst (own acc)) \<union> (user_id ` set us - {''__proto__''})"
  using assms
proof (induction us arbitrary: acc)
  case Nil
  then show ?case by simp
next
  case (Cons a us)
  have k: "distinct (map fst (own (assign (user_id a) a acc)))
       \<and> ''__proto__'' \<notin> set (map fst (own (assign (user_id a) a acc)))
       \<and> set (map fst (own (assign (user_id a) a acc))) =
           set (map fst (own acc)) \<union> ({user_id a} - {''__proto__''})"
    using Cons.prems by (rule keys_assign)
  let ?acc = "assign (user_id a) a acc"
  note d = k[THEN conjunct1] and p = k[THEN conjunct2, THEN conjunct1]
    and e = k[THEN conjunct2, THEN conjunct2]
  note ih = Cons.IH[OF d p]
  have u: "set (map fst (own (foldl (\<lambda>usersById u. assign (user_id u) u usersById) ?acc us))) =
           set (map fst (own acc)) \<union> (insert (user_id a) (user_id ` set us) - {''__proto__''})"
    by (rule keys_union_step[OF e ih[THEN conjunct2, THEN conjunct2]])
  show ?case
    unfolding harvestChannels.simps foldl.simps list.map list.simps(15) image_insert
    by (rule conjI[OF ih[THEN conjunct1] conjI[OF ih[THEN conjunct2, THEN conjunct1] u]])
qed

lemma find_last_assign:
  assumes "k \<noteq> ''__proto__''"
  shows "map_of (own (foldl (\<lambda>usersById u. assign (user_id u) u usersById) acc us)) k =
     (case find (\<lambda>u. user_id u = k) (rev us) of
        Some u \<Rightarrow> Some u
      | None \<Rightarrow> map_of (own acc) k)"
proof (induction us arbitrary: acc)
  case Nil
  then show ?case by simp
next
  case (Cons a us)
  have "map_of (own (assign (user_id a) a acc)) k =
          (if user_id a = k then Some a else map_of (own acc) k)"
    using assms map_of_assign_same[of "user_id a" a acc] map_of_assign_other[of k "user_id a" a acc]
    by auto
  then show ?case
    by (simp add: Cons.IH find_append split: option.splits)
qed

lemma index_users_keys:
  "distinct (map fst (own (index_users us)))
   \<and> set (map fst (own (index_users us))) = user_id ` set us - {''__proto__''}"
  using keys_index_fold[of empty_object us] by (simp add: index_users_def empty_object_def)

lemma length_index_users:
  "length (own (index_users us)) = card (user_id ` set us - {''__proto__''})"
proof -
  have "length (map fst (own (index_users us))) = card (user_id ` set us - {''__proto__''})"
    using index_users_keys[of us] distinct_card by metis
  then show ?thesis by simp
qed

lemma map_of_index_users:
  "map_of (own (index_users us)) k =
     (if k = ''__proto__'' then None else find (\<lambda>u. user_id u = k) (rev us))"
proof (cases "k = ''__proto__''")
  case True
  have "k \<notin> fst ` set (own (index_users us))"
    using index_users_keys[of us] True by auto
  then show ?thesis using True by (simp add: map_of_eq_None_iff)
next
  case False
  then show ?thesis
    by (simp add: index_users_def find_last_assign empty_object_def split: option.splits)
qed

text \<open>
  C10. Whenever the connection test and the two listings answer, the handler returns a
  snapshot in which \<open>totalUsers\<close> is the length of the list the user listing returned.
  The \<open>users\<close> dictionary has one entry for each distinct id of that list, and under each
  id it holds the last record of the list with that id; so two records with one id count
  twice in \<open>totalUsers\<close> and leave one entry, the later record. (A record with the id
  \<open>__proto__\<close>, which is no Slack id, counts as well and leaves no entry.)
\<close>

theorem totalUsers_counts_listing:
  assumes "auth_test en [] = Inr a"
    and "conversations_list en [AuthTest] = Inr channelsResponse"
    and "users_list en [AuthTest, ConversationsList] = Inr listing"
  shows "\<exists>snap. export en = Inr snap
       \<and> totalUsers snap = length (or_nil listing)
       \<and> length (users snap) = card (user_id ` set (or_nil listing) - {''__proto__''})
       \<and> (\<forall>k. map_of (users snap) k =
               (if k = ''__proto__'' then None
                else find (\<lambda>u. user_id u = k) (rev (or_nil listing))))"
proof -
  from export_succeeds[OF assms] obtain snap where s: "export en = Inr snap"
    by blast
  have t: "totalUsers snap = length (or_nil listing)"
    using s assms by (auto simp: export_def Let_def split: sum.splits)
  have u: "users snap = own (index_users (or_nil listing))"
    using s assms by (auto simp: export_def Let_def split: sum.splits)
  show ?thesis
    using s by (simp add: t u map_of_index_users length_index_users)
qed

text \<open>
  The example lists two records with the id \<open>U2\<close>: the handler's snapshot counts three
  users and has two entries, the later record under \<open>U2\<close>.
\<close>

theorem totalUsers_counts_listing_witness:
  "users_list scenario_env [AuthTest, ConversationsList] = Inr (Some [alice, bob_old, bob_new])
   \<and> user_id bob_old = user_id bob_new
   \<and> (\<exists>snap. export scenario_env = Inr snap
         \<and> totalUsers snap = 3
         \<and> length (users snap) = 2
         \<and> map_of (users snap) ''U2'' = Some bob_new
         \<and> map_of (users snap) ''U1'' = Some alice)"
proof -
  have i: "user_id bob_old = user_id bob_new"
    by (simp add: bob_old_def bob_new_def)
  have c: "card (user_id ` set (or_nil (Some [alice, bob_old, bob_new])) - {''__proto__''}) = 2"
    by (simp add: or_nil_def alice_def bob_old_def bob_new_def)
  have f: "find (\<lambda>u. user_id u = ''U2'') (rev (or_nil (Some [alice, bob_old, bob_new])))
             = Some bob_new"
    "find (\<lambda>u. user_id u = ''U1'') (rev (or_nil (Some [alice, bob_old, bob_new])))
             = Some alice"
    by (simp_all add: or_nil_def alice_def bob_old_def bob_new_def)
  from totalUsers_counts_listing[OF scenario_auth scenario_channels scenario_users]
  obtain snap where "export scenario_env = Inr snap"
    "totalUsers snap = length (or_nil (Some [alice, bob_old, bob_new]))"
    "length (users snap) = card (user_id ` set (or_nil (Some [alice, bob_old, bob_new]))
        - {''__proto__''})"
    "\<forall>k. map_of (users snap) k =
               (if k = ''__proto__'' then None
                else find (\<lambda>u. user_id u = k) (rev (or_nil (Some [alice, bob_old, bob_new]))))"
    by blast
  then have "export scenario_env = Inr snap \<and> totalUsers snap = 3 \<and> length (users snap) = 2
         \<and> map_of (users snap) ''U2'' = Some bob_new \<and> map_of (users snap) ''U1'' = Some alice"
    using c f by (simp add: or_nil_def)
  then show ?thesis using i scenario_users by blast
qed

end
